theory Spec2Isabelle
  imports Main
begin

section \<open>Values exchanged with the remote service\<close>

text \<open>
  Values that arrive as JSON and are kept in Python dictionaries. A number without
  fraction and exponent is a Python integer; any other number is a Python float, kept
  here as the text of the number. Dictionaries that are written out again keep their
  insertion order, so they are association lists.
\<close>

datatype json =
    JNull
  | JBool bool
  | JInt int
  | JFloat string
  | JStr string
  | JList "json list"
  | JDict "(string \<times> json) list"

text \<open>Exceptions of the source, as values.\<close>

datatype error =
    RemoteError string
  | TypeError
  | AttributeError
  | KeyError
  | OverflowError

text \<open>
  A content item of a task message. The source probes \<open>text\<close> (here \<open>item_text\<close>)
  and \<open>type\<close> (here \<open>item_type\<close>) with \<open>hasattr\<close>, so both are optional;
  \<open>fileName\<close> and \<open>fileUrl\<close> are read unguarded.
\<close>

record content_item =
  item_text :: "string option"
  item_type :: "string option"
  fileName :: string
  fileUrl :: string

record message =
  role :: string
  content :: "content_item list"

text \<open>
  A task snapshot. \<open>metadata\<close> and \<open>output\<close> (here \<open>task_output\<close>) are probed
  with \<open>hasattr\<close> in the chat handler, so they are optional. The status is the string the service sent.
\<close>

record task =
  task_id :: string
  status :: string
  metadata :: "(string \<rightharpoonup> json) option"
  task_output :: "message list option"

section \<open>Polling (\<open>poll_task_status\<close>, scripts/app.py)\<close>

text \<open>
  \<open>client.responses.retrieve\<close> is the environment: its answer to the call number
  \<open>poll_count\<close> for a task id is either an exception or a snapshot.

  The loop has no iteration cap, so it is a partial function: \<open>None\<close> is a loop that
  never returns. A returned value holds what the function returns (\<open>Inl e\<close> is the
  \<open>except\<close> branch, which reports \<open>e\<close> through \<open>status_text.error\<close> and returns
  Python's \<open>None\<close>), the number of retrieve calls made and the total time slept.
\<close>

type_synonym retrieve = "nat \<Rightarrow> string \<Rightarrow> error + task"

type_synonym poll_result = "(error + task) \<times> nat \<times> nat"

partial_function (option) poll_loop ::
  "retrieve \<Rightarrow> string \<Rightarrow> nat \<Rightarrow> nat \<Rightarrow> poll_result option"
where
  "poll_loop retrieve_fn tid poll_count slept =
     (case retrieve_fn poll_count tid of
        Inl e \<Rightarrow> Some (Inl e, Suc poll_count, slept)
      | Inr task_update \<Rightarrow>
          if status task_update = ''completed'' then
            Some (Inr task_update, Suc poll_count, slept)
          else if status task_update = ''error'' then
            Some (Inr task_update, Suc poll_count, slept)
          else if status task_update = ''pending'' then
            Some (Inr task_update, Suc poll_count, slept)
          else poll_loop retrieve_fn tid (Suc poll_count) (slept + 3))"

definition poll_task_status :: "retrieve \<Rightarrow> string \<Rightarrow> poll_result option" where
  "poll_task_status retrieve_fn tid = poll_loop retrieve_fn tid 0 0"

text \<open>
  The statuses on which the loop of the source returns. \<open>pending\<close> is the status of a
  task that waits for user input (the loop reports it as "Task pending user input"); the
  specification names this status \<open>pending_input\<close>.
\<close>

definition stops_polling :: "string \<Rightarrow> bool" where
  "stops_polling st \<longleftrightarrow> st = ''completed'' \<or> st = ''error'' \<or> st = ''pending''"

text \<open>An answer after which the loop sleeps and polls again.\<close>

definition goes_on :: "error + task \<Rightarrow> bool" where
  "goes_on answer = (case answer of Inl e \<Rightarrow> False | Inr u \<Rightarrow> \<not> stops_polling (status u))"

text \<open>The answers to the calls \<open>n\<close>, ..., \<open>k - 1\<close> all let the loop go on.\<close>

definition keeps_polling :: "retrieve \<Rightarrow> string \<Rightarrow> nat \<Rightarrow> nat \<Rightarrow> bool" where
  "keeps_polling retrieve_fn tid n k \<longleftrightarrow> (\<forall>i. n \<le> i \<and> i < k \<longrightarrow> goes_on (retrieve_fn i tid))"

text \<open>
  What a returned value of the loop started at call \<open>n\<close> looks like: after \<open>d\<close> answers
  that let it go on, the answer to call \<open>n + d\<close> is returned.
\<close>

definition poll_post :: "retrieve \<Rightarrow> string \<Rightarrow> nat \<Rightarrow> nat \<Rightarrow> poll_result \<Rightarrow> bool" where
  "poll_post retrieve_fn tid n slept r \<longleftrightarrow>
     (\<exists>d. keeps_polling retrieve_fn tid n (n + d) \<and> \<not> goes_on (retrieve_fn (n + d) tid) \<and>
          r = (retrieve_fn (n + d) tid, Suc (n + d), slept + 3 * d))"

text \<open>
  A remote behaviour used below: a task that is \<open>running\<close> twice and then \<open>pending\<close>.
\<close>

definition snapshot_with_status :: "string \<Rightarrow> task" where
  "snapshot_with_status st = \<lparr>task_id = ''t1'', status = st, metadata = None, task_output = None\<rparr>"

definition running_twice_then_pending :: retrieve where
  "running_twice_then_pending i tid =
     Inr (snapshot_with_status (if i < 2 then ''running'' else ''pending''))"

section \<open>Reply extraction (chat handler, scripts/app.py)\<close>

text \<open>
  Strings are byte strings: a Python string is represented by its UTF-8 bytes.
  \<open>str.strip()\<close> removes the leading and the trailing whitespace characters, which for
  Python are the code points \<open>U+0009\<close> to \<open>U+000D\<close>, \<open>U+001C\<close> to \<open>U+001F\<close>,
  \<open>U+0020\<close>, \<open>U+0085\<close>, \<open>U+00A0\<close>, \<open>U+1680\<close>, \<open>U+2000\<close> to \<open>U+200A\<close>,
  \<open>U+2028\<close>, \<open>U+2029\<close>, \<open>U+202F\<close>, \<open>U+205F\<close> and \<open>U+3000\<close>. \<open>whitespace_chars\<close>
  holds the UTF-8 bytes of each of them.
\<close>

definition whitespace_chars :: "string list" where
  "whitespace_chars =
     [[CHR 0x09], [CHR 0x0A], [CHR 0x0B], [CHR 0x0C], [CHR 0x0D],
      [CHR 0x1C], [CHR 0x1D], [CHR 0x1E], [CHR 0x1F], [CHR 0x20],
      [CHR 0xC2, CHR 0x85], [CHR 0xC2, CHR 0xA0],
      [CHR 0xE1, CHR 0x9A, CHR 0x80],
      [CHR 0xE2, CHR 0x80, CHR 0x80], [CHR 0xE2, CHR 0x80, CHR 0x81],
      [CHR 0xE2, CHR 0x80, CHR 0x82], [CHR 0xE2, CHR 0x80, CHR 0x83],
      [CHR 0xE2, CHR 0x80, CHR 0x84], [CHR 0xE2, CHR 0x80, CHR 0x85],
      [CHR 0xE2, CHR 0x80, CHR 0x86], [CHR 0xE2, CHR 0x80, CHR 0x87],
      [CHR 0xE2, CHR 0x80, CHR 0x88], [CHR 0xE2, CHR 0x80, CHR 0x89],
      [CHR 0xE2, CHR 0x80, CHR 0x8A],
      [CHR 0xE2, CHR 0x80, CHR 0xA8], [CHR 0xE2, CHR 0x80, CHR 0xA9],
      [CHR 0xE2, CHR 0x80, CHR 0xAF],
      [CHR 0xE2, CHR 0x81, CHR 0x9F],
      [CHR 0xE3, CHR 0x80, CHR 0x80]]"

text \<open>
  The number of bytes of the character of \<open>chars\<close> that \<open>s\<close> starts with; \<open>0\<close> when it
  starts with none.
\<close>

definition leading_space :: "string list \<Rightarrow> string \<Rightarrow> nat" where
  "leading_space chars s =
     (case filter (\<lambda>w. take (length w) s = w) chars of [] \<Rightarrow> 0 | w # ws \<Rightarrow> length w)"

text \<open>Dropping the leading characters of \<open>chars\<close>, one character at a time.\<close>

fun lstrip_chars :: "string list \<Rightarrow> string \<Rightarrow> string" where
  "lstrip_chars chars [] = []"
| "lstrip_chars chars (c # cs) =
     (if leading_space chars (c # cs) = 0 then c # cs
      else lstrip_chars chars (drop (leading_space chars (c # cs) - 1) cs))"

text \<open>The same from the end: on the reversed string, with each character reversed.\<close>

definition rstrip_chars :: "string list \<Rightarrow> string \<Rightarrow> string" where
  "rstrip_chars chars s = rev (lstrip_chars (map rev chars) (rev s))"

definition py_strip :: "string \<Rightarrow> string" where
  "py_strip s = lstrip_chars whitespace_chars (rstrip_chars whitespace_chars s)"

text \<open>\<open>sep.join(parts)\<close> with the separator \<open>"\n"\<close>.\<close>

fun newline_join :: "string list \<Rightarrow> string" where
  "newline_join [] = []"
| "newline_join [x] = x"
| "newline_join (x # y # ys) = x @ [CHR 0x0A] @ newline_join (y # ys)"

text \<open>\<open>hasattr(content_item, 'text') and content_item.text\<close>\<close>

definition has_text :: "content_item \<Rightarrow> bool" where
  "has_text content_item =
     (case item_text content_item of None \<Rightarrow> False | Some t \<Rightarrow> t \<noteq> [])"

text \<open>\<open>hasattr(content_item, 'type') and content_item.type == 'output_file'\<close>\<close>

definition is_output_file :: "content_item \<Rightarrow> bool" where
  "is_output_file content_item \<longleftrightarrow> item_type content_item = Some ''output_file''"

text \<open>
  The two nested loops of the handler, with the accumulators \<open>assistant_text\<close> and
  \<open>output_files\<close>.
\<close>

fun extract_items :: "content_item list \<Rightarrow> string \<times> string list \<Rightarrow> string \<times> string list" where
  "extract_items [] acc = acc"
| "extract_items (content_item # rest) (assistant_text, output_files) =
     (if has_text content_item then
        extract_items rest
          (assistant_text @ the (item_text content_item) @ [CHR 0x0A], output_files)
      else if is_output_file content_item then
        extract_items rest (assistant_text, output_files @ [fileName content_item])
      else extract_items rest (assistant_text, output_files))"

fun extract_messages :: "message list \<Rightarrow> string \<times> string list \<Rightarrow> string \<times> string list" where
  "extract_messages [] acc = acc"
| "extract_messages (m # rest) acc =
     (if role m = ''assistant'' then extract_messages rest (extract_items (content m) acc)
      else extract_messages rest acc)"

definition extract_response :: "task \<Rightarrow> string \<times> string list" where
  "extract_response completed_task =
     (case task_output completed_task of
        None \<Rightarrow> ([], [])
      | Some out \<Rightarrow> extract_messages out ([], []))"

text \<open>The fallback text of the handler: a check mark (three bytes in UTF-8) and a sentence.\<close>

definition default_reply :: string where
  "default_reply = [CHR 0xE2, CHR 0x9C, CHR 0x85] @ '' Task completed successfully''"

text \<open>\<open>assistant_text.strip() if assistant_text else "... Task completed successfully"\<close>\<close>

definition reply_content :: "string \<Rightarrow> string" where
  "reply_content assistant_text =
     (if assistant_text \<noteq> [] then py_strip assistant_text else default_reply)"

text \<open>
  For the statements about extraction: the content items of the assistant-role messages
  in order, their non-empty texts, and the file names of those that have no text and are
  of type \<open>output_file\<close>.
\<close>

definition assistant_items :: "message list \<Rightarrow> content_item list" where
  "assistant_items out = concat (map content (filter (\<lambda>m. role m = ''assistant'') out))"

definition reply_texts :: "message list \<Rightarrow> string list" where
  "reply_texts out = map (\<lambda>c. the (item_text c)) (filter has_text (assistant_items out))"

definition reply_files :: "message list \<Rightarrow> string list" where
  "reply_files out =
     map fileName (filter (\<lambda>c. \<not> has_text c \<and> is_output_file c) (assistant_items out))"

text \<open>
  The combined reply as the specification words it: the text content items of the
  assistant-role messages, newline-joined.
\<close>

definition spec_combined_reply :: "message list \<Rightarrow> string" where
  "spec_combined_reply out =
     newline_join (List.map_filter item_text (assistant_items out))"

text \<open>
  Task outputs used below: one generated file and no text; one indented text; a text
  that ends with a no-break space (\<open>U+00A0\<close>).
\<close>

definition nbsp_text_output :: "message list" where
  "nbsp_text_output =
     [\<lparr>role = ''assistant'',
       content = [\<lparr>item_text = Some (''Done.'' @ [CHR 0xC2, CHR 0xA0]),
                   item_type = Some ''output_text'', fileName = [], fileUrl = []\<rparr>]\<rparr>]"

definition nbsp_text_task :: task where
  "nbsp_text_task =
     \<lparr>task_id = ''t4'', status = ''completed'', metadata = None,
      task_output = Some nbsp_text_output\<rparr>"

definition file_only_output :: "message list" where
  "file_only_output =
     [\<lparr>role = ''assistant'',
       content = [\<lparr>item_text = None, item_type = Some ''output_file'',
                   fileName = ''report.pdf'', fileUrl = ''https://files/report.pdf''\<rparr>]\<rparr>]"

definition file_only_task :: task where
  "file_only_task =
     \<lparr>task_id = ''t1'', status = ''completed'', metadata = None,
      task_output = Some file_only_output\<rparr>"

definition indented_text_output :: "message list" where
  "indented_text_output =
     [\<lparr>role = ''assistant'',
       content = [\<lparr>item_text = Some ''  x = 1'', item_type = Some ''output_text'',
                   fileName = [], fileUrl = []\<rparr>]\<rparr>]"

definition indented_text_task :: task where
  "indented_text_task =
     \<lparr>task_id = ''t2'', status = ''completed'', metadata = None,
      task_output = Some indented_text_output\<rparr>"

text \<open>A task output with two messages, used as an example of extraction.\<close>

definition mixed_output :: "message list" where
  "mixed_output =
     [\<lparr>role = ''user'',
       content = [\<lparr>item_text = Some ''Summarize'', item_type = Some ''input_text'',
                   fileName = [], fileUrl = []\<rparr>]\<rparr>,
      \<lparr>role = ''assistant'',
       content = [\<lparr>item_text = Some ''Done.'', item_type = Some ''output_text'',
                   fileName = [], fileUrl = []\<rparr>,
                  \<lparr>item_text = None, item_type = Some ''output_file'',
                   fileName = ''a.csv'', fileUrl = []\<rparr>,
                  \<lparr>item_text = Some ''See the file.'', item_type = Some ''output_text'',
                   fileName = [], fileUrl = []\<rparr>]\<rparr>]"

definition mixed_task :: task where
  "mixed_task =
     \<lparr>task_id = ''t3'', status = ''completed'', metadata = None,
      task_output = Some mixed_output\<rparr>"

section \<open>Session state (scripts/app.py)\<close>

text \<open>
  The entries of \<open>st.session_state\<close>. A conversation message is a Python dictionary
  whose keys are written in a fixed order. Message lists are mutable objects that the
  source shares (\<open>Load\<close> binds \<open>messages\<close> to the list held by a history entry), so
  they live in a store: \<open>heap\<close> maps an address to a list, \<open>next_free\<close> is the next
  unused address, \<open>messages\<close> and the \<open>messages\<close> entry of a saved conversation (here
  \<open>conv_messages\<close>) are addresses. The dictionaries of \<open>uploaded_files\<close> have the keys
  \<open>id\<close>, \<open>name\<close>, \<open>size\<close> and \<open>type\<close>; a saved conversation has the keys
  \<open>timestamp\<close>, \<open>messages\<close>, \<open>task_count\<close> and \<open>credits_used\<close>.
\<close>

type_synonym pydict = "(string \<times> json) list"

record uploaded_file =
  file_id :: string
  file_name :: string
  file_size :: nat
  file_type :: string

text \<open>
  A Python number: an integer, or a float. Floats are not computed: a float is the one
  that a number text denotes, the one that an integer converts to, or the rounded sum of
  two floats.
\<close>

datatype pyfloat = FloatLiteral string | FloatOfInt int | FloatSum pyfloat pyfloat

datatype pynum = PyInt int | PyFloat pyfloat

record conversation =
  timestamp :: string
  conv_messages :: nat
  conv_task_count :: int
  credits_used :: pynum

record session_state =
  heap :: "nat \<Rightarrow> pydict list"
  next_free :: nat
  messages :: nat
  current_task_id :: "string option"
  uploaded_files :: "uploaded_file list"
  conversation_history :: "conversation list"
  total_credits_used :: pynum
  task_count :: int
  session_api_key :: string

text \<open>The state after the initialisation at the top of the script.\<close>

definition initial_state :: session_state where
  "initial_state =
     \<lparr>heap = (\<lambda>a. []), next_free = 1, messages = 0, current_task_id = None,
      uploaded_files = [], conversation_history = [], total_credits_used = PyInt 0,
      task_count = 0, session_api_key = []\<rparr>"

definition current_messages :: "session_state \<Rightarrow> pydict list" where
  "current_messages s = heap s (messages s)"

text \<open>\<open>st.session_state.messages.append(m)\<close>\<close>

definition append_message :: "pydict \<Rightarrow> session_state \<Rightarrow> session_state" where
  "append_message m s = s\<lparr>heap := (heap s)(messages s := heap s (messages s) @ [m])\<rparr>"

text \<open>\<open>save_conversation_to_history\<close>; \<open>now\<close> is the formatted \<open>datetime.now()\<close>.\<close>

definition save_conversation_to_history :: "string \<Rightarrow> session_state \<Rightarrow> session_state" where
  "save_conversation_to_history now s =
     (if current_messages s \<noteq> [] then
        s\<lparr>heap := (heap s)(next_free s := current_messages s),
          next_free := Suc (next_free s),
          conversation_history := conversation_history s @
            [\<lparr>timestamp = now, conv_messages = next_free s,
              conv_task_count = task_count s, credits_used = total_credits_used s\<rparr>]\<rparr>
      else s)"

text \<open>The \<open>New Chat\<close> button.\<close>

definition new_chat :: "string \<Rightarrow> session_state \<Rightarrow> session_state" where
  "new_chat now s =
     (let s1 = save_conversation_to_history now s
      in s1\<lparr>heap := (heap s1)(next_free s1 := []),
            next_free := Suc (next_free s1),
            messages := next_free s1,
            current_task_id := None,
            uploaded_files := []\<rparr>)"

text \<open>
  The \<open>Load\<close> button number \<open>idx\<close> of the history panel, which lists the history in
  reverse; there is a button for each entry only.
\<close>

definition load_conversation :: "string \<Rightarrow> nat \<Rightarrow> session_state \<Rightarrow> session_state" where
  "load_conversation now idx s =
     (if idx < length (conversation_history s) then
        (let conv = rev (conversation_history s) ! idx
         in (save_conversation_to_history now s)\<lparr>messages := conv_messages conv\<rparr>)
      else s)"

text \<open>The \<open>Clear Files\<close> button.\<close>

definition clear_files :: "session_state \<Rightarrow> session_state" where
  "clear_files s = s\<lparr>uploaded_files := []\<rparr>"

section \<open>Task creation and the chat handler (scripts/app.py)\<close>

datatype input_item = InputText string | InputFile string | InputImage string

record create_request =
  input_content :: "input_item list"
  extra_body :: pydict

text \<open>The client: what the service answers to a create request and to the retrieve calls.\<close>

record chat_env =
  responses_create :: "create_request \<Rightarrow> error + task"
  responses_retrieve :: retrieve

text \<open>The request that \<open>create_task\<close> assembles.\<close>

definition create_task_request ::
  "string \<Rightarrow> string list option \<Rightarrow> string option \<Rightarrow> string \<Rightarrow> string option \<Rightarrow> int
     \<Rightarrow> create_request" where
  "create_task_request user_input uploaded_file_ids image_url agent_profile previous_task_id
       timeout_seconds =
     \<lparr>input_content =
        [InputText user_input]
        @ (case uploaded_file_ids of None \<Rightarrow> [] | Some ids \<Rightarrow> map InputFile ids)
        @ (case image_url of None \<Rightarrow> [] | Some u \<Rightarrow> if u \<noteq> [] then [InputImage u] else []),
      extra_body =
        [(''task_mode'', JStr ''agent''),
         (''agent_profile'', JStr agent_profile),
         (''timeout_seconds'', JInt timeout_seconds)]
        @ (case previous_task_id of None \<Rightarrow> []
           | Some p \<Rightarrow> if p \<noteq> [] then [(''task_id'', JStr p)] else [])\<rparr>"

text \<open>
  \<open>create_task\<close>: \<open>Inl e\<close> is the \<open>except\<close> branch, which reports \<open>e\<close> through
  \<open>st.error\<close> and returns Python's \<open>None\<close>.
\<close>

definition create_task ::
  "chat_env \<Rightarrow> string \<Rightarrow> string list option \<Rightarrow> string option \<Rightarrow> string \<Rightarrow> string option
     \<Rightarrow> int \<Rightarrow> error + task" where
  "create_task client user_input uploaded_file_ids image_url agent_profile previous_task_id
       timeout_seconds =
     responses_create client
       (create_task_request user_input uploaded_file_ids image_url agent_profile
          previous_task_id timeout_seconds)"

text \<open>\<open>d.get(key, default)\<close>\<close>

definition dict_get :: "(string \<rightharpoonup> json) \<Rightarrow> string \<Rightarrow> json \<Rightarrow> json" where
  "dict_get d key default_value = (case d key of None \<Rightarrow> default_value | Some v \<Rightarrow> v)"

text \<open>
  \<open>float(n)\<close> for an integer: an \<open>OverflowError\<close> when \<open>n\<close> rounds to no finite
  float, that is from \<open>2 ^ 1024 - 2 ^ 970\<close> on.
\<close>

definition float_of_int :: "int \<Rightarrow> error + pyfloat" where
  "float_of_int n =
     (if 2 ^ 1024 - 2 ^ 970 \<le> \<bar>n\<bar> then Inl OverflowError else Inr (FloatOfInt n))"

text \<open>
  \<open>total + v\<close> for the counter and a metadata value: integer addition for integers and
  booleans, float addition as soon as one side is a float (the integer side is
  converted), a \<open>TypeError\<close> for strings, \<open>None\<close>, lists and dictionaries.
\<close>

definition int_of_json :: "json \<Rightarrow> int option" where
  "int_of_json v =
     (case v of JInt m \<Rightarrow> Some m | JBool b \<Rightarrow> Some (if b then 1 else 0) | _ \<Rightarrow> None)"

definition py_add :: "pynum \<Rightarrow> json \<Rightarrow> error + pynum" where
  "py_add counter v =
     (case v of
        JFloat x \<Rightarrow>
          (case counter of
             PyInt n \<Rightarrow>
               (case float_of_int n of
                  Inl e \<Rightarrow> Inl e
                | Inr y \<Rightarrow> Inr (PyFloat (FloatSum y (FloatLiteral x))))
           | PyFloat y \<Rightarrow> Inr (PyFloat (FloatSum y (FloatLiteral x))))
      | _ \<Rightarrow>
          (case int_of_json v of
             None \<Rightarrow> Inl TypeError
           | Some m \<Rightarrow>
               (case counter of
                  PyInt n \<Rightarrow> Inr (PyInt (n + m))
                | PyFloat y \<Rightarrow>
                    (case float_of_int m of
                       Inl e \<Rightarrow> Inl e
                     | Inr x \<Rightarrow> Inr (PyFloat (FloatSum y x))))))"

text \<open>
  How a run of the handler ends: the exception that ended it, if any; the errors it
  reported on the page; the session state it leaves.
\<close>

record outcome =
  raised :: "error option"
  reported :: "error list"
  final :: session_state

text \<open>The user message that the handler stores.\<close>

definition user_message_of :: "string \<Rightarrow> string \<Rightarrow> session_state \<Rightarrow> pydict" where
  "user_message_of user_input timestamp_now s =
     [(''role'', JStr ''user''), (''content'', JStr user_input),
      (''timestamp'', JStr timestamp_now)]
     @ (if uploaded_files s \<noteq> []
        then [(''files'', JList (map (\<lambda>f. JStr (file_name f)) (uploaded_files s)))]
        else [])"

text \<open>The branch \<open>if completed_task:\<close> of the handler, without the rendering.\<close>

definition record_completed_task ::
  "task \<Rightarrow> json \<Rightarrow> string \<Rightarrow> session_state \<Rightarrow> outcome" where
  "record_completed_task completed_task task_url finished s =
     (let (assistant_text, output_files) = extract_response completed_task;
          credits_used =
            (case metadata completed_task of None \<Rightarrow> JInt 0
             | Some md \<Rightarrow> dict_get md ''credit_usage'' (JInt 0));
          added =
            (case metadata completed_task of None \<Rightarrow> Inr (total_credits_used s)
             | Some md \<Rightarrow> py_add (total_credits_used s) credits_used)
      in case added of
           Inl e \<Rightarrow> \<lparr>raised = Some e, reported = [], final = s\<rparr>
         | Inr new_total \<Rightarrow>
             (let assistant_message =
                    [(''role'', JStr ''assistant''),
                     (''content'', JStr (reply_content assistant_text)),
                     (''task_url'', task_url),
                     (''credits'', credits_used),
                     (''timestamp'', JStr finished)]
                    @ (if output_files \<noteq> []
                       then [(''output_files'', JList (map JStr output_files))] else [])
              in \<lparr>raised = None, reported = [],
                  final = (append_message assistant_message
                            (s\<lparr>total_credits_used := new_total\<rparr>))\<lparr>uploaded_files := []\<rparr>\<rparr>))"

text \<open>The state when polling starts: the user message stored, the created task counted.\<close>

definition task_started :: "string \<Rightarrow> string \<Rightarrow> task \<Rightarrow> session_state \<Rightarrow> session_state" where
  "task_started user_input timestamp_now response s =
     (append_message (user_message_of user_input timestamp_now s) s)
       \<lparr>current_task_id := Some (task_id response), task_count := task_count s + 1\<rparr>"

text \<open>
  The body of \<open>if user_input:\<close>. \<open>timestamp_now\<close> and \<open>finished\<close> are the two readings
  of the clock. \<open>None\<close> is a run whose polling never returns.
\<close>

definition chat_handler ::
  "chat_env \<Rightarrow> string \<Rightarrow> int \<Rightarrow> string \<Rightarrow> string \<Rightarrow> string \<Rightarrow> session_state
     \<Rightarrow> outcome option" where
  "chat_handler client agent_profile timeout_seconds user_input timestamp_now finished s =
     (let s1 = append_message (user_message_of user_input timestamp_now s) s;
          file_ids = map file_id (uploaded_files s1)
      in case create_task client user_input (if file_ids \<noteq> [] then Some file_ids else None)
                None agent_profile (current_task_id s1) timeout_seconds of
           Inl e \<Rightarrow> Some \<lparr>raised = None, reported = [e], final = s1\<rparr>
         | Inr response \<Rightarrow>
             (let s2 = task_started user_input timestamp_now response s
              in case metadata response of
                   None \<Rightarrow> Some \<lparr>raised = Some AttributeError, reported = [], final = s2\<rparr>
                 | Some md \<Rightarrow>
                     (case poll_task_status (responses_retrieve client) (task_id response) of
                        None \<Rightarrow> None
                      | Some (Inl e, calls, slept) \<Rightarrow>
                          Some \<lparr>raised = None, reported = [e], final = s2\<rparr>
                      | Some (Inr completed_task, calls, slept) \<Rightarrow>
                          Some (record_completed_task completed_task
                                  (dict_get md ''task_url'' (JStr [])) finished s2))))"

text \<open>The request that the handler sends for a state and an input.\<close>

definition handler_request :: "string \<Rightarrow> int \<Rightarrow> string \<Rightarrow> session_state \<Rightarrow> create_request" where
  "handler_request agent_profile timeout_seconds user_input s =
     create_task_request user_input
       (if map file_id (uploaded_files s) \<noteq> [] then Some (map file_id (uploaded_files s))
        else None)
       None agent_profile (current_task_id s) timeout_seconds"

section \<open>File upload (scripts/file_manager.py, scripts/app.py)\<close>

text \<open>
  A file handed over by the upload widget, the two remote calls of an upload, and the
  network calls made. The record returned by the registration is a dictionary.
\<close>

record local_file =
  name :: string
  data :: "char list"
  mime_type :: string

record file_env =
  files_post :: "string \<Rightarrow> error + (string \<rightharpoonup> string)"
  requests_put :: "string \<Rightarrow> char list \<Rightarrow> error + unit"

datatype net_call = PostFiles string | PutBytes string

text \<open>What one call of \<open>upload_file_to_manus\<close> returns, calls and reports.\<close>

record upload_attempt =
  returned_id :: "string option"
  calls_made :: "net_call list"
  errors_shown :: "error list"

definition upload_file_to_manus :: "file_env \<Rightarrow> char list \<Rightarrow> string \<Rightarrow> upload_attempt" where
  "upload_file_to_manus client file_data file_name_arg =
     (case files_post client file_name_arg of
        Inl e \<Rightarrow>
          \<lparr>returned_id = None, calls_made = [PostFiles file_name_arg], errors_shown = [e]\<rparr>
      | Inr file_record \<Rightarrow>
          (case file_record ''upload_url'' of
             None \<Rightarrow>
               \<lparr>returned_id = None, calls_made = [PostFiles file_name_arg],
                errors_shown = [KeyError]\<rparr>
           | Some upload_url \<Rightarrow>
               (case requests_put client upload_url file_data of
                  Inl e \<Rightarrow>
                    \<lparr>returned_id = None,
                     calls_made = [PostFiles file_name_arg, PutBytes upload_url],
                     errors_shown = [e]\<rparr>
                | Inr ok \<Rightarrow>
                    (case file_record ''id'' of
                       None \<Rightarrow>
                         \<lparr>returned_id = None,
                          calls_made = [PostFiles file_name_arg, PutBytes upload_url],
                          errors_shown = [KeyError]\<rparr>
                     | Some i \<Rightarrow>
                         \<lparr>returned_id = Some i,
                          calls_made = [PostFiles file_name_arg, PutBytes upload_url],
                          errors_shown = []\<rparr>))))"

text \<open>\<open>if file_id:\<close>\<close>

definition truthy_id :: "string option \<Rightarrow> bool" where
  "truthy_id file_id_opt = (case file_id_opt of None \<Rightarrow> False | Some i \<Rightarrow> i \<noteq> [])"

text \<open>
  The \<open>Upload All Files\<close> handler of the file manager. A result dictionary has the keys
  \<open>filename\<close>, \<open>file_id\<close>, \<open>size\<close>, \<open>timestamp\<close> and \<open>status\<close>. The remote may answer
  each file of the batch differently: \<open>client idx\<close> is its behaviour during the upload
  number \<open>idx\<close>, \<open>clock idx\<close> the time then.
\<close>

record upload_result =
  filename :: string
  result_file_id :: "string option"
  result_size :: nat
  result_timestamp :: string
  result_status :: string

record batch =
  uploaded_count :: nat
  upload_results :: "upload_result list"
  batch_calls :: "net_call list"

fun upload_all_loop ::
  "(nat \<Rightarrow> file_env) \<Rightarrow> (nat \<Rightarrow> string) \<Rightarrow> nat \<Rightarrow> local_file list \<Rightarrow> batch \<Rightarrow> batch" where
  "upload_all_loop client clock idx [] b = b"
| "upload_all_loop client clock idx (file # rest) b =
     (let file_data = data file;
          attempt = upload_file_to_manus (client idx) file_data (name file)
      in if truthy_id (returned_id attempt) then
           upload_all_loop client clock (Suc idx) rest
             \<lparr>uploaded_count = uploaded_count b + 1,
              upload_results = upload_results b @
                [\<lparr>filename = name file, result_file_id = returned_id attempt,
                  result_size = length file_data, result_timestamp = clock idx,
                  result_status = ''success''\<rparr>],
              batch_calls = batch_calls b @ calls_made attempt\<rparr>
         else
           upload_all_loop client clock (Suc idx) rest
             \<lparr>uploaded_count = uploaded_count b,
              upload_results = upload_results b @
                [\<lparr>filename = name file, result_file_id = None,
                  result_size = length file_data, result_timestamp = clock idx,
                  result_status = ''failed''\<rparr>],
              batch_calls = batch_calls b @ calls_made attempt\<rparr>)"

definition upload_all_files ::
  "(nat \<Rightarrow> file_env) \<Rightarrow> (nat \<Rightarrow> string) \<Rightarrow> local_file list \<Rightarrow> batch" where
  "upload_all_files client clock files =
     upload_all_loop client clock 0 files
       \<lparr>uploaded_count = 0, upload_results = [], batch_calls = []\<rparr>"

text \<open>
  The \<open>Process All Uploads\<close> handler of the chat page: the staged files of the session
  are replaced by the files whose upload returned an identifier.
\<close>

fun process_uploads_loop ::
  "(nat \<Rightarrow> file_env) \<Rightarrow> nat \<Rightarrow> local_file list \<Rightarrow> session_state \<times> net_call list
     \<Rightarrow> session_state \<times> net_call list" where
  "process_uploads_loop client idx [] acc = acc"
| "process_uploads_loop client idx (file # rest) (s, calls) =
     (let file_data = data file;
          attempt = upload_file_to_manus (client idx) file_data (name file)
      in if truthy_id (returned_id attempt) then
           process_uploads_loop client (Suc idx) rest
             (s\<lparr>uploaded_files := uploaded_files s @
                  [\<lparr>file_id = the (returned_id attempt), file_name = name file,
                    file_size = length file_data, file_type = mime_type file\<rparr>]\<rparr>,
              calls @ calls_made attempt)
         else process_uploads_loop client (Suc idx) rest (s, calls @ calls_made attempt))"

definition process_all_uploads ::
  "string \<Rightarrow> (nat \<Rightarrow> file_env) \<Rightarrow> local_file list \<Rightarrow> session_state
     \<Rightarrow> session_state \<times> net_call list" where
  "process_all_uploads api_key_input client files s =
     (if files \<noteq> [] \<and> api_key_input \<noteq> [] then
        process_uploads_loop client 0 files (s\<lparr>uploaded_files := []\<rparr>, [])
      else (s, []))"

section \<open>Configuration (config.py) and file names (scripts/utils.py)\<close>

record ManusConfig =
  base_url :: string
  api_key :: "string option"
  default_agent_profile :: string
  default_timeout_seconds :: int
  max_file_size_mb :: int
  file_expiry_hours :: int
  supported_file_types :: "string list option"
  default_task_limit :: int
  max_task_limit :: int
  page_title :: string
  page_icon :: string
  layout :: string

text \<open>\<open>__post_init__\<close>; \<open>env_key\<close> is \<open>os.getenv('MANUS_API_KEY')\<close>.\<close>

definition post_init :: "string option \<Rightarrow> ManusConfig \<Rightarrow> ManusConfig" where
  "post_init env_key c =
     (let c1 = (if supported_file_types c = None then
                  c\<lparr>supported_file_types := Some
                     [''pdf'', ''docx'', ''doc'', ''txt'', ''md'',
                      ''csv'', ''xlsx'', ''xls'', ''json'',
                      ''png'', ''jpg'', ''jpeg'', ''gif'', ''webp'',
                      ''py'', ''js'', ''jsx'', ''ts'', ''tsx'', ''html'', ''css'',
                      ''zip'', ''tar'', ''gz'']\<rparr>
                else c)
      in if api_key c1 = None \<or> api_key c1 = Some [] then c1\<lparr>api_key := env_key\<rparr> else c1)"

text \<open>The field defaults of the dataclass; the page icon is a four-byte character.\<close>

definition field_defaults :: ManusConfig where
  "field_defaults =
     \<lparr>base_url = ''https://api.manus.im'', api_key = None,
      default_agent_profile = ''quality'', default_timeout_seconds = 300,
      max_file_size_mb = 100, file_expiry_hours = 48, supported_file_types = None,
      default_task_limit = 50, max_task_limit = 100,
      page_title = ''Manus AI Assistant'',
      page_icon = [CHR 0xF0, CHR 0x9F, CHR 0xA4, CHR 0x96], layout = ''wide''\<rparr>"

definition default_config :: "string option \<Rightarrow> ManusConfig" where
  "default_config env_key = post_init env_key field_defaults"


text \<open>\<open>str.lower()\<close> on ASCII letters, and \<open>extract_file_extension\<close>.\<close>

definition lower_char :: "char \<Rightarrow> char" where
  "lower_char c =
     (let n = (of_char c :: nat) in if 65 \<le> n \<and> n \<le> 90 then char_of (n + 32) else c)"

definition extract_file_extension :: "string \<Rightarrow> string" where
  "extract_file_extension file_name_arg =
     (if CHR ''.'' \<notin> set file_name_arg then []
      else map lower_char (rev (takeWhile (\<lambda>c. c \<noteq> CHR ''.'') (rev file_name_arg))))"

text \<open>
  The local validation that the specification asks for before registration: the size
  within the configured maximum and the extension in the configured list.
\<close>

definition spec_locally_valid :: "ManusConfig \<Rightarrow> local_file \<Rightarrow> bool" where
  "spec_locally_valid c file \<longleftrightarrow>
     int (length (data file)) \<le> max_file_size_mb c * 1024 * 1024 \<and>
     (case supported_file_types c of None \<Rightarrow> False
      | Some types \<Rightarrow> extract_file_extension (name file) \<in> set types)"

section \<open>A session as a sequence of operations\<close>

text \<open>
  What a user can do in a session of the chat page: save the key, send a chat input
  (with the remote behaviour during that run and the clock readings), start a new chat,
  load a saved conversation, clear the staged files, process a batch of uploads. The chat
  handler runs only with a key and an input; a run that raises leaves the state it reached.
\<close>

datatype op =
    SaveApiKey string
  | ChatInput string chat_env string int string string string
  | NewChat string
  | LoadConversation string nat
  | ClearFiles
  | ProcessAllUploads string "nat \<Rightarrow> file_env" "local_file list"

fun apply_op :: "op \<Rightarrow> session_state \<Rightarrow> session_state option" where
  "apply_op (SaveApiKey k) s = Some (s\<lparr>session_api_key := k\<rparr>)"
| "apply_op (ChatInput api_key_input client agent_profile timeout_seconds user_input
       timestamp_now finished) s =
     (if api_key_input = [] \<or> user_input = [] then Some s
      else map_option final
             (chat_handler client agent_profile timeout_seconds user_input timestamp_now
                finished s))"
| "apply_op (NewChat now) s = Some (new_chat now s)"
| "apply_op (LoadConversation now idx) s = Some (load_conversation now idx s)"
| "apply_op ClearFiles s = Some (clear_files s)"
| "apply_op (ProcessAllUploads api_key_input client files) s =
     Some (fst (process_all_uploads api_key_input client files s))"

fun run_ops :: "op list \<Rightarrow> session_state \<Rightarrow> session_state option" where
  "run_ops [] s = Some s"
| "run_ops (x # xs) s = (case apply_op x s of None \<Rightarrow> None | Some s' \<Rightarrow> run_ops xs s')"

text \<open>
  The credit usage that a snapshot reports, when it is a number, is an integer that is
  not negative.
\<close>

definition credits_nonneg :: "task \<Rightarrow> bool" where
  "credits_nonneg t =
     (case metadata t of None \<Rightarrow> True
      | Some md \<Rightarrow>
          (case md ''credit_usage'' of
             Some (JInt n) \<Rightarrow> 0 \<le> n
           | Some (JFloat x) \<Rightarrow> False
           | _ \<Rightarrow> True))"

fun op_credits_nonneg :: "op \<Rightarrow> bool" where
  "op_credits_nonneg (ChatInput api_key_input client agent_profile timeout_seconds user_input
       timestamp_now finished) =
     (\<forall>i tid t. responses_retrieve client i tid = Inr t \<longrightarrow> credits_nonneg t)"
| "op_credits_nonneg other = True"

text \<open>
  The addresses in use are below \<open>next_free\<close>, and the list of every saved conversation
  is not empty.
\<close>

definition history_ok :: "session_state \<Rightarrow> bool" where
  "history_ok s \<longleftrightarrow>
     messages s < next_free s \<and>
     (\<forall>c \<in> set (conversation_history s).
        conv_messages c < next_free s \<and> heap s (conv_messages c) \<noteq> [])"

text \<open>
  Remote behaviours and sessions used below. A task that is created, answers \<open>running\<close>
  twice and then \<open>completed\<close> with the text \<open>Done.\<close> and a given credit usage; a service
  that refuses to create a task; a service whose second retrieve call fails.
\<close>

definition created_task :: task where
  "created_task =
     \<lparr>task_id = ''t1'', status = ''created'',
      metadata = Some [''task_url'' \<mapsto> JStr ''https://manus.im/app/t1''],
      task_output = None\<rparr>"

definition running_task :: task where
  "running_task =
     \<lparr>task_id = ''t1'', status = ''running'', metadata = Some Map.empty, task_output = None\<rparr>"

definition done_task :: "json \<Rightarrow> task" where
  "done_task credit =
     \<lparr>task_id = ''t1'', status = ''completed'',
      metadata = Some [''credit_usage'' \<mapsto> credit],
      task_output = Some
        [\<lparr>role = ''assistant'',
          content = [\<lparr>item_text = Some ''Done.'', item_type = Some ''output_text'',
                      fileName = [], fileUrl = []\<rparr>]\<rparr>]\<rparr>"

definition reporting_retrieve :: "json \<Rightarrow> retrieve" where
  "reporting_retrieve credit i tid = Inr (if i < 2 then running_task else done_task credit)"

definition reporting_client :: "json \<Rightarrow> chat_env" where
  "reporting_client credit =
     \<lparr>responses_create = (\<lambda>request. Inr created_task),
      responses_retrieve = reporting_retrieve credit\<rparr>"

definition refusing_client :: chat_env where
  "refusing_client =
     \<lparr>responses_create = (\<lambda>request. Inl (RemoteError ''503'')),
      responses_retrieve = reporting_retrieve (JInt 0)\<rparr>"

definition broken_retrieve :: retrieve where
  "broken_retrieve i tid = (if i = 0 then Inr running_task else Inl (RemoteError ''timeout''))"

definition broken_client :: chat_env where
  "broken_client =
     \<lparr>responses_create = (\<lambda>request. Inr created_task), responses_retrieve = broken_retrieve\<rparr>"

definition summarize :: "json \<Rightarrow> op" where
  "summarize credit =
     ChatInput ''key'' (reporting_client credit) ''speed'' 60 ''Summarize this text''
       ''2024-01-01 09:00:00'' ''2024-01-01 09:00:09''"

definition refused_session :: "op list" where
  "refused_session =
     [NewChat ''2024-01-01 08:59:00'',
      ChatInput ''key'' refusing_client ''quality'' 300 ''Hello''
        ''2024-01-01 09:00:00'' ''2024-01-01 09:00:09'',
      NewChat ''2024-01-01 09:01:00'']"

section \<open>Describing an upload batch\<close>

text \<open>
  The upload attempt for the file number \<open>idx\<close> of a batch, the result dictionary and
  the staged-file dictionary that the handlers build from it, and whether the
  registration or the byte upload of an attempt fails.
\<close>

definition attempt_of :: "(nat \<Rightarrow> file_env) \<Rightarrow> nat \<times> local_file \<Rightarrow> upload_attempt" where
  "attempt_of client p = upload_file_to_manus (client (fst p)) (data (snd p)) (name (snd p))"

definition uploaded_ok :: "(nat \<Rightarrow> file_env) \<Rightarrow> nat \<times> local_file \<Rightarrow> bool" where
  "uploaded_ok client p = truthy_id (returned_id (attempt_of client p))"

definition result_of ::
  "(nat \<Rightarrow> file_env) \<Rightarrow> (nat \<Rightarrow> string) \<Rightarrow> nat \<times> local_file \<Rightarrow> upload_result" where
  "result_of client clock p =
     \<lparr>filename = name (snd p),
      result_file_id = (if uploaded_ok client p then returned_id (attempt_of client p) else None),
      result_size = length (data (snd p)),
      result_timestamp = clock (fst p),
      result_status = (if uploaded_ok client p then ''success'' else ''failed'')\<rparr>"

definition staged_of :: "(nat \<Rightarrow> file_env) \<Rightarrow> nat \<times> local_file \<Rightarrow> uploaded_file" where
  "staged_of client p =
     \<lparr>file_id = the (returned_id (attempt_of client p)), file_name = name (snd p),
      file_size = length (data (snd p)), file_type = mime_type (snd p)\<rparr>"

definition step_fails :: "file_env \<Rightarrow> char list \<Rightarrow> string \<Rightarrow> bool" where
  "step_fails client file_data file_name_arg =
     (case files_post client file_name_arg of
        Inl e \<Rightarrow> True
      | Inr file_record \<Rightarrow>
          (case file_record ''upload_url'' of
             None \<Rightarrow> False
           | Some upload_url \<Rightarrow>
               (case requests_put client upload_url file_data of
                  Inl e \<Rightarrow> True
                | Inr ok \<Rightarrow> False)))"

text \<open>
  Remote behaviours and files used below: a service that registers and stores every
  file; a batch of three files of which the service refuses the bytes of the second and
  the registration of the third; a file of 150 MiB.
\<close>

definition registered :: "string \<Rightarrow> string \<rightharpoonup> string" where
  "registered file_name_arg =
     [''id'' \<mapsto> ''file-'' @ file_name_arg, ''upload_url'' \<mapsto> ''https://upload/'' @ file_name_arg]"

definition accepting_client :: file_env where
  "accepting_client =
     \<lparr>files_post = (\<lambda>file_name_arg. Inr (registered file_name_arg)),
      requests_put = (\<lambda>url file_data. Inr ())\<rparr>"

definition always_accepting :: "nat \<Rightarrow> file_env" where
  "always_accepting idx = accepting_client"

definition failing_twice :: "nat \<Rightarrow> file_env" where
  "failing_twice idx =
     (if idx = 0 then accepting_client
      else if idx = 1 then
        \<lparr>files_post = (\<lambda>file_name_arg. Inr (registered file_name_arg)),
         requests_put = (\<lambda>url file_data. Inl (RemoteError ''403''))\<rparr>
      else
        \<lparr>files_post = (\<lambda>file_name_arg. Inl (RemoteError ''500'')),
         requests_put = (\<lambda>url file_data. Inr ())\<rparr>)"

definition fixed_clock :: "nat \<Rightarrow> string" where
  "fixed_clock idx = ''2024-01-01 09:00:00''"

definition three_files :: "local_file list" where
  "three_files =
     [\<lparr>name = ''a.txt'', data = ''aaa'', mime_type = ''text/plain''\<rparr>,
      \<lparr>name = ''b.csv'', data = ''b,b'', mime_type = ''text/csv''\<rparr>,
      \<lparr>name = ''c.md'', data = ''# c'', mime_type = ''text/markdown''\<rparr>]"

definition big_file :: local_file where
  "big_file =
     \<lparr>name = ''big.pdf'', data = replicate (150 * 1024 * 1024) (CHR 0x00),
      mime_type = ''application/pdf''\<rparr>"

section \<open>Properties of the polling loop\<close>

lemma poll_loop_unfold:
  "poll_loop retrieve_fn tid n slept =
     (if goes_on (retrieve_fn n tid) then poll_loop retrieve_fn tid (Suc n) (slept + 3)
      else Some (retrieve_fn n tid, Suc n, slept))"
  by (subst poll_loop.simps) (auto simp: goes_on_def stops_polling_def split: sum.splits)

lemma poll_loop_forward:
  "keeps_polling retrieve_fn tid n (n + d) \<Longrightarrow>
   poll_loop retrieve_fn tid n slept = poll_loop retrieve_fn tid (n + d) (slept + 3 * d)"
proof (induction d arbitrary: n slept)
  case 0
  then show ?case by simp
next
  case (Suc d)
  from Suc.prems have here: "goes_on (retrieve_fn n tid)"
    by (simp add: keeps_polling_def)
  from Suc.prems have rest: "keeps_polling retrieve_fn tid (Suc n) (Suc n + d)"
    by (simp add: keeps_polling_def)
  from here have "poll_loop retrieve_fn tid n slept = poll_loop retrieve_fn tid (Suc n) (slept + 3)"
    by (subst poll_loop_unfold) simp
  also have "\<dots> = poll_loop retrieve_fn tid (Suc n + d) (slept + 3 + 3 * d)"
    by (rule Suc.IH [OF rest])
  finally show ?case by (simp add: algebra_simps)
qed

lemma poll_loop_complete:
  assumes "keeps_polling retrieve_fn tid n (n + d)" and "\<not> goes_on (retrieve_fn (n + d) tid)"
  shows "poll_loop retrieve_fn tid n slept = Some (retrieve_fn (n + d) tid, Suc (n + d), slept + 3 * d)"
proof -
  have "poll_loop retrieve_fn tid n slept = poll_loop retrieve_fn tid (n + d) (slept + 3 * d)"
    by (rule poll_loop_forward [OF assms(1)])
  also have "\<dots> = Some (retrieve_fn (n + d) tid, Suc (n + d), slept + 3 * d)"
    using assms(2) by (subst poll_loop_unfold) simp
  finally show ?thesis .
qed

lemma poll_post_now:
  "\<not> goes_on (retrieve_fn n tid) \<Longrightarrow> poll_post retrieve_fn tid n slept (retrieve_fn n tid, Suc n, slept)"
  unfolding poll_post_def by (rule exI [of _ 0]) (auto simp: keeps_polling_def)

lemma keeps_polling_step:
  assumes "goes_on (retrieve_fn n tid)"
    and "keeps_polling retrieve_fn tid (Suc n) (Suc n + d)"
  shows "keeps_polling retrieve_fn tid n (n + Suc d)"
  unfolding keeps_polling_def
proof (intro allI impI)
  fix i assume i: "n \<le> i \<and> i < n + Suc d"
  show "goes_on (retrieve_fn i tid)"
  proof (cases "i = n")
    case True with assms(1) show ?thesis by simp
  next
    case False
    with i have "Suc n \<le> i \<and> i < Suc n + d" by simp
    with assms(2) show ?thesis unfolding keeps_polling_def by blast
  qed
qed

lemma poll_post_later:
  assumes "goes_on (retrieve_fn n tid)"
    and "poll_post retrieve_fn tid (Suc n) (slept + 3) r"
  shows "poll_post retrieve_fn tid n slept r"
proof -
  from assms(2) obtain d where
    d: "keeps_polling retrieve_fn tid (Suc n) (Suc n + d)"
       "\<not> goes_on (retrieve_fn (Suc n + d) tid)"
       "r = (retrieve_fn (Suc n + d) tid, Suc (Suc n + d), slept + 3 + 3 * d)"
    unfolding poll_post_def by blast
  have k: "keeps_polling retrieve_fn tid n (n + Suc d)"
    by (rule keeps_polling_step [OF assms(1) d(1)])
  show ?thesis
    unfolding poll_post_def
    by (rule exI [of _ "Suc d"]) (use k d(2,3) in simp)
qed

lemma poll_step_sound:
  assumes IH: "\<And>rf t pc sl y. f rf t pc sl = Some y \<Longrightarrow> poll_post rf t pc sl y"
    and eq: "(case rf pc t of
        Inl e \<Rightarrow> Some (Inl e, Suc pc, sl)
      | Inr task_update \<Rightarrow>
          if status task_update = ''completed'' then
            Some (Inr task_update, Suc pc, sl)
          else if status task_update = ''error'' then
            Some (Inr task_update, Suc pc, sl)
          else if status task_update = ''pending'' then
            Some (Inr task_update, Suc pc, sl)
          else f rf t (Suc pc) (sl + 3)) = Some res"
  shows "poll_post rf t pc sl res"
proof (cases "goes_on (rf pc t)")
  case True
  with eq have "f rf t (Suc pc) (sl + 3) = Some res"
    by (auto simp: goes_on_def stops_polling_def split: sum.splits if_splits)
  then have "poll_post rf t (Suc pc) (sl + 3) res" by (rule IH)
  with True show ?thesis by (rule poll_post_later)
next
  case False
  with eq have "res = (rf pc t, Suc pc, sl)"
    by (auto simp: goes_on_def stops_polling_def split: sum.splits if_splits)
  with False show ?thesis by (simp add: poll_post_now)
qed

lemma poll_loop_sound:
  assumes "poll_loop retrieve_fn tid n slept = Some r"
  shows "poll_post retrieve_fn tid n slept r"
  by (rule poll_loop.raw_induct [where P = poll_post, OF _ assms]) (rule poll_step_sound)

text \<open>
  C1. The loop returns a snapshot \<open>t\<close> after \<open>calls\<close> retrieve calls and \<open>slept\<close> time
  units of sleep exactly when \<open>t\<close> is the answer to some call \<open>k\<close>, its status is
  \<open>completed\<close>, \<open>error\<close> or \<open>pending\<close> (the pending-input status), every earlier answer
  was a snapshot with another status, and the loop made \<open>k + 1\<close> calls and slept \<open>3\<close> time
  units after each of the \<open>k\<close> earlier ones. So it stops exactly at the first snapshot with
  one of these statuses, never returns a snapshot with another status and never polls
  again after one of these three.
\<close>

theorem poll_returns_snapshot_iff:
  "poll_task_status retrieve_fn tid = Some (Inr t, calls, slept) \<longleftrightarrow>
     (\<exists>k. calls = Suc k \<and> slept = 3 * k \<and> keeps_polling retrieve_fn tid 0 k \<and>
          retrieve_fn k tid = Inr t \<and> stops_polling (status t))"
proof
  assume "poll_task_status retrieve_fn tid = Some (Inr t, calls, slept)"
  then have "poll_post retrieve_fn tid 0 0 (Inr t, calls, slept)"
    unfolding poll_task_status_def by (rule poll_loop_sound)
  then obtain d where d: "keeps_polling retrieve_fn tid 0 d" "\<not> goes_on (retrieve_fn d tid)"
      "(Inr t, calls, slept) = (retrieve_fn d tid, Suc d, 3 * d)"
    unfolding poll_post_def by auto
  from d(3) have "retrieve_fn d tid = Inr t" "calls = Suc d" "slept = 3 * d" by simp_all
  moreover from d(2) \<open>retrieve_fn d tid = Inr t\<close> have "stops_polling (status t)"
    by (simp add: goes_on_def)
  ultimately show "\<exists>k. calls = Suc k \<and> slept = 3 * k \<and> keeps_polling retrieve_fn tid 0 k \<and>
          retrieve_fn k tid = Inr t \<and> stops_polling (status t)"
    using d(1) by blast
next
  assume "\<exists>k. calls = Suc k \<and> slept = 3 * k \<and> keeps_polling retrieve_fn tid 0 k \<and>
          retrieve_fn k tid = Inr t \<and> stops_polling (status t)"
  then obtain k where k: "calls = Suc k" "slept = 3 * k" "keeps_polling retrieve_fn tid 0 k"
      "retrieve_fn k tid = Inr t" "stops_polling (status t)"
    by blast
  from k(4,5) have stop: "\<not> goes_on (retrieve_fn (0 + k) tid)" by (simp add: goes_on_def)
  from k(3) have "keeps_polling retrieve_fn tid 0 (0 + k)" by simp
  from poll_loop_complete [OF this stop, of 0] k(1,2,4)
  show "poll_task_status retrieve_fn tid = Some (Inr t, calls, slept)"
    by (simp add: poll_task_status_def)
qed

theorem poll_returns_snapshot_iff_witness:
  "poll_task_status running_twice_then_pending ''t1'' =
     Some (Inr (snapshot_with_status ''pending''), 3, 6)"
proof -
  have "keeps_polling running_twice_then_pending ''t1'' 0 2"
    by (simp add: keeps_polling_def running_twice_then_pending_def snapshot_with_status_def
        goes_on_def stops_polling_def)
  then show ?thesis
    by (subst poll_returns_snapshot_iff)
       (simp add: running_twice_then_pending_def snapshot_with_status_def stops_polling_def)
qed

section \<open>Properties of reply extraction\<close>

lemma extract_items_acc:
  "extract_items cs (a, fs) =
     (a @ concat (map (\<lambda>c. the (item_text c) @ [CHR 0x0A]) (filter has_text cs)),
      fs @ map fileName (filter (\<lambda>c. \<not> has_text c \<and> is_output_file c) cs))"
  by (induction cs arbitrary: a fs) simp_all

lemma extract_messages_acc:
  "extract_messages out (a, fs) =
     (a @ concat (map (\<lambda>c. the (item_text c) @ [CHR 0x0A]) (filter has_text (assistant_items out))),
      fs @ map fileName (filter (\<lambda>c. \<not> has_text c \<and> is_output_file c) (assistant_items out)))"
proof (induction out arbitrary: a fs)
  case Nil
  then show ?case by (simp add: assistant_items_def)
next
  case (Cons m out)
  have split: "assistant_items (m # out) =
      (if role m = ''assistant'' then content m else []) @ assistant_items out"
    by (simp add: assistant_items_def)
  show ?case
    by (simp add: split extract_items_acc Cons.IH)
qed

lemma concat_terminated:
  "ts \<noteq> [] \<Longrightarrow> concat (map (\<lambda>t. t @ [CHR 0x0A]) ts) = newline_join ts @ [CHR 0x0A]"
  by (induction ts rule: newline_join.induct) simp_all

lemma rstrip_newline:
  "rstrip_chars whitespace_chars (s @ [CHR 0x0A]) = rstrip_chars whitespace_chars s"
  by (simp add: rstrip_chars_def leading_space_def whitespace_chars_def)

lemma py_strip_newline: "py_strip (s @ [CHR 0x0A]) = py_strip s"
  by (simp only: py_strip_def rstrip_newline)

lemma terminated_empty_iff:
  "concat (map (\<lambda>t. t @ [CHR 0x0A]) ts) = [] \<longleftrightarrow> ts = []"
  by (cases ts) simp_all

text \<open>
  C2, as the handler computes it. For a task with output, the accumulated text is the
  non-empty texts of the content items of the assistant-role messages, in message and
  item order, each followed by a newline, and the side list is the file names of the
  items of those messages that have no text and are of type \<open>output_file\<close>, in the same
  order; user-role messages contribute to neither. The stored reply is the newline-joined
  texts with leading and trailing whitespace characters stripped (\<open>str.strip()\<close>), and the
  fixed fallback sentence when there is no text.
\<close>

theorem extract_response_reply:
  assumes "task_output completed_task = Some out"
  shows "extract_response completed_task =
           (concat (map (\<lambda>t. t @ [CHR 0x0A]) (reply_texts out)), reply_files out) \<and>
         reply_content (fst (extract_response completed_task)) =
           (if reply_texts out = [] then default_reply
            else py_strip (newline_join (reply_texts out)))"
proof -
  have e: "extract_response completed_task =
           (concat (map (\<lambda>t. t @ [CHR 0x0A]) (reply_texts out)), reply_files out)"
    using assms
    by (simp add: extract_response_def extract_messages_acc reply_texts_def reply_files_def
        map_concat o_def)
  have "reply_content (concat (map (\<lambda>t. t @ [CHR 0x0A]) (reply_texts out))) =
           (if reply_texts out = [] then default_reply
            else py_strip (newline_join (reply_texts out)))"
    by (simp add: reply_content_def terminated_empty_iff concat_terminated py_strip_newline)
  with e show ?thesis by simp
qed

theorem extract_response_reply_witness:
  "task_output mixed_task = Some mixed_output \<and>
   extract_response mixed_task =
     (''Done.'' @ [CHR 0x0A] @ ''See the file.'' @ [CHR 0x0A], [''a.csv'']) \<and>
   reply_content (fst (extract_response mixed_task)) = ''Done.'' @ [CHR 0x0A] @ ''See the file.''"
proof -
  have o: "task_output mixed_task = Some mixed_output"
    by (simp add: mixed_task_def)
  have t: "reply_texts mixed_output = [''Done.'', ''See the file.'']"
    by (simp add: mixed_output_def reply_texts_def assistant_items_def has_text_def)
  have f: "reply_files mixed_output = [''a.csv'']"
    by (simp add: mixed_output_def reply_files_def assistant_items_def has_text_def
        is_output_file_def)
  have s: "py_strip (newline_join [''Done.'', ''See the file.'']) =
      ''Done.'' @ [CHR 0x0A] @ ''See the file.''"
    by (simp add: py_strip_def rstrip_chars_def leading_space_def whitespace_chars_def)
  from extract_response_reply [OF o] show ?thesis
    unfolding t f s using o by auto
qed

text \<open>
  C2 as the specification words it fails: for an output with a generated file and no
  text the reply is the fallback sentence, not the empty join; an indented text loses its
  indentation; a text that ends with a no-break space loses it.
\<close>

lemma strip_examples:
  "py_strip (''  x = 1'' @ [CHR 0x0A]) = ''x = 1''"
  "py_strip (''Done.'' @ [CHR 0xC2, CHR 0xA0, CHR 0x0A]) = ''Done.''"
  by (simp_all add: py_strip_def rstrip_chars_def leading_space_def whitespace_chars_def)

theorem reply_is_not_newline_join:
  "task_output file_only_task = Some file_only_output \<and>
   reply_content (fst (extract_response file_only_task)) = default_reply \<and>
   spec_combined_reply file_only_output = [] \<and>
   default_reply \<noteq> spec_combined_reply file_only_output \<and>
   task_output indented_text_task = Some indented_text_output \<and>
   reply_content (fst (extract_response indented_text_task)) = ''x = 1'' \<and>
   spec_combined_reply indented_text_output = ''  x = 1'' \<and>
   task_output nbsp_text_task = Some nbsp_text_output \<and>
   reply_content (fst (extract_response nbsp_text_task)) = ''Done.'' \<and>
   spec_combined_reply nbsp_text_output = ''Done.'' @ [CHR 0xC2, CHR 0xA0]"
  using strip_examples
  by (simp add: file_only_task_def indented_text_task_def file_only_output_def
      indented_text_output_def nbsp_text_task_def nbsp_text_output_def
      extract_response_def has_text_def
      is_output_file_def reply_content_def default_reply_def spec_combined_reply_def
      assistant_items_def List.map_filter_simps)

section \<open>Properties of the conversation history\<close>

lemma append_message_fields [simp]:
  "next_free (append_message m s) = next_free s"
  "messages (append_message m s) = messages s"
  "conversation_history (append_message m s) = conversation_history s"
  "total_credits_used (append_message m s) = total_credits_used s"
  "uploaded_files (append_message m s) = uploaded_files s"
  "current_task_id (append_message m s) = current_task_id s"
  "task_count (append_message m s) = task_count s"
  by (simp_all add: append_message_def)

lemma history_ok_append:
  "history_ok s \<Longrightarrow> history_ok (append_message m s)"
  by (auto simp: history_ok_def append_message_def)

lemma history_ok_fields:
  "history_ok s \<Longrightarrow>
   history_ok (s\<lparr>current_task_id := a\<rparr>) \<and> history_ok (s\<lparr>task_count := b\<rparr>) \<and>
   history_ok (s\<lparr>uploaded_files := c\<rparr>) \<and> history_ok (s\<lparr>total_credits_used := d\<rparr>) \<and>
   history_ok (s\<lparr>session_api_key := e\<rparr>)"
  by (simp add: history_ok_def)

lemma history_ok_save:
  assumes "history_ok s"
  shows "history_ok (save_conversation_to_history now s)"
proof (cases "current_messages s = []")
  case True
  with assms show ?thesis by (simp add: save_conversation_to_history_def)
next
  case False
  with assms show ?thesis
    by (auto simp: save_conversation_to_history_def history_ok_def current_messages_def)
qed

lemma history_ok_new_chat:
  assumes "history_ok s"
  shows "history_ok (new_chat now s)"
proof -
  from assms have "history_ok (save_conversation_to_history now s)"
    by (rule history_ok_save)
  then show ?thesis
    by (auto simp: new_chat_def Let_def history_ok_def)
qed

lemma save_history_cases:
  "conversation_history (save_conversation_to_history now s) =
     (if current_messages s = [] then conversation_history s
      else conversation_history s @
        [\<lparr>timestamp = now, conv_messages = next_free s,
          conv_task_count = task_count s, credits_used = total_credits_used s\<rparr>])"
  by (simp add: save_conversation_to_history_def)

lemma history_ok_load:
  assumes "history_ok s"
  shows "history_ok (load_conversation now idx s)"
proof (cases "idx < length (conversation_history s)")
  case False
  with assms show ?thesis by (simp add: load_conversation_def)
next
  case True
  let ?conv = "rev (conversation_history s) ! idx"
  from True have "?conv \<in> set (conversation_history s)"
    by (metis length_rev nth_mem set_rev)
  with assms have a: "conv_messages ?conv < next_free s" by (simp add: history_ok_def)
  have mono: "next_free s \<le> next_free (save_conversation_to_history now s)"
    by (simp add: save_conversation_to_history_def)
  from assms have "history_ok (save_conversation_to_history now s)" by (rule history_ok_save)
  with a mono True show ?thesis
    by (simp add: load_conversation_def Let_def history_ok_def)
qed

lemma process_uploads_loop_rest:
  "heap (fst (process_uploads_loop client idx files (s, calls))) = heap s \<and>
   next_free (fst (process_uploads_loop client idx files (s, calls))) = next_free s \<and>
   messages (fst (process_uploads_loop client idx files (s, calls))) = messages s \<and>
   conversation_history (fst (process_uploads_loop client idx files (s, calls))) =
     conversation_history s \<and>
   total_credits_used (fst (process_uploads_loop client idx files (s, calls))) =
     total_credits_used s"
  by (induction files arbitrary: idx s calls) (simp_all add: Let_def)

lemma process_all_uploads_rest:
  "heap (fst (process_all_uploads k client files s)) = heap s \<and>
   next_free (fst (process_all_uploads k client files s)) = next_free s \<and>
   messages (fst (process_all_uploads k client files s)) = messages s \<and>
   conversation_history (fst (process_all_uploads k client files s)) = conversation_history s \<and>
   total_credits_used (fst (process_all_uploads k client files s)) = total_credits_used s"
  by (simp add: process_all_uploads_def process_uploads_loop_rest)

lemma history_ok_process:
  "history_ok s \<Longrightarrow> history_ok (fst (process_all_uploads k client files s))"
  by (simp add: history_ok_def process_all_uploads_rest)

lemma history_ok_started:
  "history_ok s \<Longrightarrow> history_ok (task_started user_input ts response s)"
  unfolding task_started_def
  by (intro history_ok_fields [THEN conjunct1] history_ok_fields [THEN conjunct2, THEN conjunct1]
      history_ok_append)

lemma history_ok_completed:
  assumes "history_ok s"
  shows "history_ok (final (record_completed_task t url fin s))"
proof -
  have f: "\<And>s a. history_ok s \<Longrightarrow> history_ok (s\<lparr>uploaded_files := a\<rparr>)"
          "\<And>s a. history_ok s \<Longrightarrow> history_ok (s\<lparr>total_credits_used := a\<rparr>)"
    by (simp_all add: history_ok_def)
  show ?thesis
    using assms
    by (auto simp: record_completed_task_def Let_def split: prod.splits sum.splits option.splits
        intro!: f history_ok_append)
qed

lemma history_ok_chat:
  assumes "history_ok s"
    and "chat_handler client agent_profile timeout_seconds user_input ts fin s = Some out"
  shows "history_ok (final out)"
  using assms(2)
  by (auto simp: chat_handler_def Let_def history_ok_append [OF assms(1)]
      history_ok_started [OF assms(1)] history_ok_completed [OF history_ok_started [OF assms(1)]]
      split: sum.splits option.splits prod.splits)

lemma history_ok_apply_op:
  assumes "history_ok s" and "apply_op x s = Some s'"
  shows "history_ok s'"
proof (cases x)
  case (SaveApiKey k)
  with assms show ?thesis by (auto simp: history_ok_def)
next
  case (ChatInput k client agent_profile timeout_seconds user_input ts fin)
  with assms show ?thesis
    by (auto split: if_splits dest: history_ok_chat)
next
  case (NewChat now)
  with assms show ?thesis by (auto intro: history_ok_new_chat)
next
  case (LoadConversation now idx)
  with assms show ?thesis by (auto intro: history_ok_load)
next
  case ClearFiles
  with assms show ?thesis by (auto simp: clear_files_def history_ok_def)
next
  case (ProcessAllUploads k client files)
  with assms show ?thesis by (auto intro: history_ok_process)
qed

lemma history_ok_run_ops:
  "history_ok s \<Longrightarrow> run_ops ops s = Some s' \<Longrightarrow> history_ok s'"
proof (induction ops arbitrary: s)
  case Nil
  then show ?case by simp
next
  case (Cons x ops)
  from Cons.prems(2) obtain s1 where s1: "apply_op x s = Some s1" "run_ops ops s1 = Some s'"
    by (auto split: option.splits)
  from Cons.prems(1) s1(1) have "history_ok s1" by (rule history_ok_apply_op)
  then show ?case using s1(2) by (rule Cons.IH)
qed

lemma history_ok_initial: "history_ok initial_state"
  by (simp add: history_ok_def initial_state_def)

text \<open>
  C10. \<open>New Chat\<close> leaves the history list as it is when the active message list is
  empty, and otherwise appends one entry, which holds a copy of the active list. In every
  state that a sequence of operations reaches from the initial state, no history entry
  holds an empty message list.
\<close>

theorem new_chat_history:
  "conversation_history (new_chat now s) =
     (if current_messages s = [] then conversation_history s
      else conversation_history s @
        [\<lparr>timestamp = now, conv_messages = next_free s,
          conv_task_count = task_count s, credits_used = total_credits_used s\<rparr>]) \<and>
   (current_messages s \<noteq> [] \<longrightarrow> heap (new_chat now s) (next_free s) = current_messages s) \<and>
   (run_ops ops initial_state = Some s' \<longrightarrow>
      (\<forall>c \<in> set (conversation_history s'). heap s' (conv_messages c) \<noteq> []))"
proof (intro conjI impI)
  show "conversation_history (new_chat now s) =
     (if current_messages s = [] then conversation_history s
      else conversation_history s @
        [\<lparr>timestamp = now, conv_messages = next_free s,
          conv_task_count = task_count s, credits_used = total_credits_used s\<rparr>])"
    by (simp add: new_chat_def Let_def save_history_cases)
next
  assume "current_messages s \<noteq> []"
  then show "heap (new_chat now s) (next_free s) = current_messages s"
    by (simp add: new_chat_def Let_def save_conversation_to_history_def)
next
  assume "run_ops ops initial_state = Some s'"
  with history_ok_initial have "history_ok s'" by (rule history_ok_run_ops)
  then show "\<forall>c \<in> set (conversation_history s'). heap s' (conv_messages c) \<noteq> []"
    by (simp add: history_ok_def)
qed

theorem new_chat_history_witness:
  "current_messages initial_state = [] \<and>
   conversation_history (new_chat ''2024-01-01 08:59:00'' initial_state) = [] \<and>
   (\<exists>s'. run_ops refused_session initial_state = Some s' \<and>
      length (conversation_history s') = 1 \<and>
      (\<forall>c \<in> set (conversation_history s'). heap s' (conv_messages c) \<noteq> []))"
proof -
  have e: "current_messages initial_state = []"
    by (simp add: current_messages_def initial_state_def)
  have r: "\<exists>s'. run_ops refused_session initial_state = Some s' \<and>
      length (conversation_history s') = 1"
    by (simp add: refused_session_def initial_state_def new_chat_def Let_def
        save_conversation_to_history_def current_messages_def chat_handler_def
        create_task_def refusing_client_def append_message_def user_message_of_def)
  then obtain s' where s': "run_ops refused_session initial_state = Some s'"
      "length (conversation_history s') = 1" by blast
  from new_chat_history [of "''2024-01-01 08:59:00''" initial_state refused_session s'] e s'
  show ?thesis
    by (auto simp: initial_state_def)
qed


section \<open>Properties of the chat handler\<close>

lemma chat_handler_unfold:
  "chat_handler client agent_profile timeout_seconds user_input ts fin s =
     (case responses_create client (handler_request agent_profile timeout_seconds user_input s) of
        Inl e \<Rightarrow> Some \<lparr>raised = None, reported = [e],
                       final = append_message (user_message_of user_input ts s) s\<rparr>
      | Inr response \<Rightarrow>
          (case metadata response of
             None \<Rightarrow> Some \<lparr>raised = Some AttributeError, reported = [],
                           final = task_started user_input ts response s\<rparr>
           | Some md \<Rightarrow>
               (case poll_task_status (responses_retrieve client) (task_id response) of
                  None \<Rightarrow> None
                | Some (Inl e, calls, slept) \<Rightarrow>
                    Some \<lparr>raised = None, reported = [e],
                          final = task_started user_input ts response s\<rparr>
                | Some (Inr completed_task, calls, slept) \<Rightarrow>
                    Some (record_completed_task completed_task
                            (dict_get md ''task_url'' (JStr [])) fin
                            (task_started user_input ts response s)))))"
  by (simp add: chat_handler_def Let_def create_task_def handler_request_def
      split: sum.split option.split)

lemma task_started_fields:
  "total_credits_used (task_started user_input ts response s) = total_credits_used s"
  "uploaded_files (task_started user_input ts response s) = uploaded_files s"
  "conversation_history (task_started user_input ts response s) = conversation_history s"
  "current_messages (task_started user_input ts response s) =
     current_messages s @ [user_message_of user_input ts s]"
  "task_count (task_started user_input ts response s) = task_count s + 1"
  "current_task_id (task_started user_input ts response s) = Some (task_id response)"
  by (simp_all add: task_started_def append_message_def current_messages_def)

lemma py_add_nonneg:
  assumes "py_add (PyInt n) v = Inr m"
    and "case v of JInt k \<Rightarrow> 0 \<le> k | JFloat x \<Rightarrow> False | _ \<Rightarrow> True"
  shows "\<exists>b. m = PyInt b \<and> n \<le> b"
  using assms by (cases v) (auto simp: py_add_def int_of_json_def)

lemma record_completed_total:
  assumes "credits_nonneg t" and "total_credits_used s = PyInt a"
  shows "\<exists>b. total_credits_used (final (record_completed_task t url fin s)) = PyInt b \<and> a \<le> b"
proof (cases "metadata t")
  case None
  with assms(2) show ?thesis
    by (simp add: record_completed_task_def Let_def append_message_def split: prod.splits)
next
  case (Some md)
  let ?v = "dict_get md ''credit_usage'' (JInt 0)"
  from assms(1) Some
  have v: "case ?v of JInt k \<Rightarrow> 0 \<le> k | JFloat x \<Rightarrow> False | _ \<Rightarrow> True"
    by (auto simp: credits_nonneg_def dict_get_def split: option.splits json.splits)
  show ?thesis
  proof (cases "py_add (PyInt a) ?v")
    case (Inl e)
    with Some assms(2) show ?thesis
      by (simp add: record_completed_task_def Let_def split: prod.splits)
  next
    case (Inr m)
    from py_add_nonneg [OF Inr v] obtain b where "m = PyInt b" "a \<le> b" by blast
    with Some Inr assms(2) show ?thesis
      by (simp add: record_completed_task_def Let_def append_message_def split: prod.splits)
  qed
qed

lemma poll_returns_an_answer:
  assumes "poll_task_status retrieve_fn tid = Some (Inr t, calls, slept)"
  shows "\<exists>k. retrieve_fn k tid = Inr t"
proof -
  from assms have "poll_post retrieve_fn tid 0 0 (Inr t, calls, slept)"
    unfolding poll_task_status_def by (rule poll_loop_sound)
  then show ?thesis unfolding poll_post_def by auto
qed

lemma chat_handler_total:
  assumes nn: "\<forall>i tid t. responses_retrieve client i tid = Inr t \<longrightarrow> credits_nonneg t"
    and int: "total_credits_used s = PyInt a"
    and run: "chat_handler client agent_profile timeout_seconds user_input ts fin s = Some out"
  shows "\<exists>b. total_credits_used (final out) = PyInt b \<and> a \<le> b"
proof -
  have completed_le: "\<exists>b. total_credits_used
      (final (record_completed_task t url fin (task_started user_input ts response s))) = PyInt b
      \<and> a \<le> b"
    if "poll_task_status (responses_retrieve client) tid = Some (Inr t, calls, slept)"
    for t tid calls slept url response
  proof -
    from poll_returns_an_answer [OF that] nn have "credits_nonneg t" by blast
    then show ?thesis
      by (rule record_completed_total) (simp add: task_started_fields int)
  qed
  from run show ?thesis
    unfolding chat_handler_unfold
    by (auto simp: task_started_fields int completed_le split: sum.splits option.splits prod.splits)
qed

lemma apply_op_total:
  assumes "op_credits_nonneg x" and "total_credits_used s = PyInt a" and "apply_op x s = Some s'"
  shows "\<exists>b. total_credits_used s' = PyInt b \<and> a \<le> b"
proof (cases x)
  case (ChatInput k client agent_profile timeout_seconds user_input ts fin)
  with assms show ?thesis
    by (auto split: if_splits dest: chat_handler_total)
next
  case (NewChat now)
  with assms show ?thesis
    by (auto simp: new_chat_def Let_def save_conversation_to_history_def)
next
  case (LoadConversation now idx)
  with assms show ?thesis
    by (auto simp: load_conversation_def Let_def save_conversation_to_history_def)
next
  case (ProcessAllUploads k client files)
  with assms show ?thesis by (auto simp: process_all_uploads_rest)
qed (use assms in \<open>auto simp: clear_files_def\<close>)

lemma poll_reporting:
  "poll_task_status (reporting_retrieve credit) tid = Some (Inr (done_task credit), 3, 6)"
proof -
  have k: "keeps_polling (reporting_retrieve credit) tid 0 (0 + 2)"
    by (simp add: keeps_polling_def reporting_retrieve_def running_task_def goes_on_def
        stops_polling_def)
  have s: "\<not> goes_on (reporting_retrieve credit (0 + 2) tid)"
    by (simp add: reporting_retrieve_def done_task_def goes_on_def stops_polling_def)
  show ?thesis
    unfolding poll_task_status_def
    by (subst poll_loop_complete [OF k s]) (simp add: reporting_retrieve_def)
qed

lemma summarize_runs:
  "apply_op (summarize credit) s =
     Some (final (record_completed_task (done_task credit) (JStr ''https://manus.im/app/t1'')
        ''2024-01-01 09:00:09''
        (task_started ''Summarize this text'' ''2024-01-01 09:00:00'' created_task s)))"
  by (simp add: summarize_def chat_handler_unfold reporting_client_def poll_reporting
      created_task_def dict_get_def)

lemma record_completed_int:
  "total_credits_used s = PyInt a \<Longrightarrow>
   total_credits_used (final (record_completed_task (done_task (JInt n)) url fin s)) =
     PyInt (a + n)"
  by (simp add: record_completed_task_def done_task_def dict_get_def Let_def py_add_def
      int_of_json_def split: prod.splits)

lemma summarize_total:
  "total_credits_used s = PyInt a \<Longrightarrow>
   \<exists>s'. apply_op (summarize (JInt n)) s = Some s' \<and> total_credits_used s' = PyInt (a + n)"
  by (simp add: summarize_runs record_completed_int task_started_fields)

lemma two_summaries:
  "\<exists>s'. run_ops [summarize (JInt 5), summarize (JInt 5)] initial_state = Some s' \<and>
        total_credits_used s' = PyInt 10"
proof -
  have "total_credits_used initial_state = PyInt 0" by (simp add: initial_state_def)
  from summarize_total [OF this, of 5]
  obtain s1 where s1: "apply_op (summarize (JInt 5)) initial_state = Some s1"
      "total_credits_used s1 = PyInt (0 + 5)"
    by blast
  from summarize_total [OF s1(2), of 5]
  obtain s2 where s2: "apply_op (summarize (JInt 5)) s1 = Some s2"
      "total_credits_used s2 = PyInt (0 + 5 + 5)"
    by blast
  from s1 s2 show ?thesis by simp
qed

lemma summarize_nonneg: "0 \<le> n \<Longrightarrow> op_credits_nonneg (summarize (JInt n))"
  by (simp add: summarize_def reporting_client_def reporting_retrieve_def credits_nonneg_def
      running_task_def done_task_def)

text \<open>
  C4, under the condition that it needs. The counter is the integer \<open>0\<close> in the initial
  state, and a sequence of operations (chat inputs, new chats, history loads, file
  clearing, upload batches, saving the key) that runs to its end leaves it an integer and
  never decreases it, provided that every \<open>credit_usage\<close> number that the service reports is
  an integer and not negative: the handler adds the reported value as it is, so a negative
  number decreases the counter, and a fractional one turns it into a float.
\<close>

theorem credits_never_decrease:
  assumes "\<forall>x \<in> set ops. op_credits_nonneg x"
    and "total_credits_used s = PyInt a"
    and "run_ops ops s = Some s'"
  shows "total_credits_used initial_state = PyInt 0 \<and>
         (\<exists>b. total_credits_used s' = PyInt b \<and> a \<le> b)"
proof -
  have "\<exists>b. total_credits_used s' = PyInt b \<and> a \<le> b"
    using assms
  proof (induction ops arbitrary: s a)
    case Nil
    then show ?case by simp
  next
    case (Cons x ops)
    from Cons.prems(3) obtain s1 where s1: "apply_op x s = Some s1" "run_ops ops s1 = Some s'"
      by (auto split: option.splits)
    from Cons.prems(1) have "op_credits_nonneg x" by simp
    from apply_op_total [OF this Cons.prems(2) s1(1)]
    obtain c where c: "total_credits_used s1 = PyInt c" "a \<le> c" by blast
    from Cons.prems(1) have "\<forall>x \<in> set ops. op_credits_nonneg x" by simp
    from Cons.IH [OF this c(1) s1(2)] obtain b where "total_credits_used s' = PyInt b" "c \<le> b"
      by blast
    with c(2) show ?case by auto
  qed
  then show ?thesis by (simp add: initial_state_def)
qed

theorem credits_never_decrease_witness:
  "op_credits_nonneg (summarize (JInt 5)) \<and>
   total_credits_used initial_state = PyInt 0 \<and>
   (\<exists>s'. run_ops [summarize (JInt 5), summarize (JInt 5)] initial_state = Some s' \<and>
      total_credits_used s' = PyInt 10)"
proof -
  have one: "op_credits_nonneg (summarize (JInt 5))"
    by (simp add: summarize_nonneg)
  then have nn: "\<forall>x \<in> set [summarize (JInt 5), summarize (JInt 5)]. op_credits_nonneg x"
    by simp
  have z: "total_credits_used initial_state = PyInt 0" by (simp add: initial_state_def)
  obtain s' where s': "run_ops [summarize (JInt 5), summarize (JInt 5)] initial_state = Some s'"
      "total_credits_used s' = PyInt 10"
    using two_summaries by blast
  from credits_never_decrease [OF nn z s'(1)] one s' show ?thesis by blast
qed

text \<open>
  C4 as the specification words it fails: a completed task that reports a
  \<open>credit_usage\<close> of \<open>-5\<close> takes the counter from \<open>0\<close> to \<open>-5\<close>.
\<close>

theorem negative_credit_decreases:
  "total_credits_used initial_state = PyInt 0 \<and>
   map_option total_credits_used (run_ops [summarize (JInt (- 5))] initial_state) =
     Some (PyInt (- 5))"
proof -
  have z: "total_credits_used initial_state = PyInt 0" by (simp add: initial_state_def)
  from summarize_total [OF z, of "- 5"]
  obtain s1 where s1: "apply_op (summarize (JInt (- 5))) initial_state = Some s1"
      "total_credits_used s1 = PyInt (0 + (- 5))"
    by blast
  with z show ?thesis by simp
qed

text \<open>A fractional credit usage turns the counter into a float.\<close>

lemma fractional_credit_gives_float:
  "py_add (PyInt 0) (JFloat ''2.5'') =
     Inr (PyFloat (FloatSum (FloatOfInt 0) (FloatLiteral ''2.5'')))"
  by (simp add: py_add_def float_of_int_def)

text \<open>
  C3 at a task whose metadata holds \<open>credit_usage\<close> as the string \<open>"5"\<close>: the addition
  raises \<open>TypeError\<close>. The run ends there, with the user message stored and the task
  counted, no assistant message, and the counter unchanged.
\<close>

theorem string_credit_raises:
  "chat_handler (reporting_client (JStr ''5'')) ''speed'' 60 ''Summarize this text''
       ''2024-01-01 09:00:00'' ''2024-01-01 09:00:09'' initial_state =
     Some \<lparr>raised = Some TypeError, reported = [],
           final = task_started ''Summarize this text'' ''2024-01-01 09:00:00'' created_task
                     initial_state\<rparr>"
  by (simp add: chat_handler_unfold reporting_client_def poll_reporting created_task_def
      dict_get_def record_completed_task_def done_task_def Let_def py_add_def
      int_of_json_def initial_state_def task_started_def append_message_def split: prod.splits)


lemma poll_error:
  assumes "keeps_polling retrieve_fn tid 0 k" and "retrieve_fn k tid = Inl e"
  shows "poll_task_status retrieve_fn tid = Some (Inl e, Suc k, 3 * k)"
proof -
  from assms(1) have k: "keeps_polling retrieve_fn tid 0 (0 + k)" by simp
  from assms(2) have s: "\<not> goes_on (retrieve_fn (0 + k) tid)" by (simp add: goes_on_def)
  show ?thesis
    unfolding poll_task_status_def
    by (subst poll_loop_complete [OF k s]) (simp add: assms(2))
qed

text \<open>
  C7. When a retrieve call of the polling loop raises, after any number of answers on
  which the loop went on, the loop returns at once, the handler reports the error and
  ends, and the session state is the one in which polling started: the messages are the
  earlier ones and the user message, with no assistant message; the credit counter, the
  staged files and the history are unchanged.
\<close>

theorem poll_error_leaves_state:
  assumes "responses_create client (handler_request agent_profile timeout_seconds user_input s)
             = Inr response"
    and "metadata response = Some md"
    and "keeps_polling (responses_retrieve client) (task_id response) 0 k"
    and "responses_retrieve client k (task_id response) = Inl e"
  shows "poll_task_status (responses_retrieve client) (task_id response) =
           Some (Inl e, Suc k, 3 * k) \<and>
         chat_handler client agent_profile timeout_seconds user_input ts fin s =
           Some \<lparr>raised = None, reported = [e],
                 final = task_started user_input ts response s\<rparr> \<and>
         current_messages (task_started user_input ts response s) =
           current_messages s @ [user_message_of user_input ts s] \<and>
         total_credits_used (task_started user_input ts response s) = total_credits_used s \<and>
         uploaded_files (task_started user_input ts response s) = uploaded_files s \<and>
         conversation_history (task_started user_input ts response s) = conversation_history s"
proof -
  have p: "poll_task_status (responses_retrieve client) (task_id response) =
           Some (Inl e, Suc k, 3 * k)"
    by (rule poll_error [OF assms(3,4)])
  then have "chat_handler client agent_profile timeout_seconds user_input ts fin s =
           Some \<lparr>raised = None, reported = [e],
                 final = task_started user_input ts response s\<rparr>"
    by (simp add: chat_handler_unfold assms(1,2))
  with p show ?thesis by (simp add: task_started_fields)
qed

theorem poll_error_leaves_state_witness:
  "responses_create broken_client (handler_request ''quality'' 300 ''Hello'' initial_state)
     = Inr created_task \<and>
   keeps_polling (responses_retrieve broken_client) (task_id created_task) 0 1 \<and>
   responses_retrieve broken_client 1 (task_id created_task) = Inl (RemoteError ''timeout'') \<and>
   chat_handler broken_client ''quality'' 300 ''Hello'' ''2024-01-01 09:00:00''
       ''2024-01-01 09:00:09'' initial_state =
     Some \<lparr>raised = None, reported = [RemoteError ''timeout''],
           final = task_started ''Hello'' ''2024-01-01 09:00:00'' created_task initial_state\<rparr> \<and>
   total_credits_used (task_started ''Hello'' ''2024-01-01 09:00:00'' created_task initial_state)
     = PyInt 0"
proof -
  have c: "responses_create broken_client (handler_request ''quality'' 300 ''Hello'' initial_state)
     = Inr created_task"
    by (simp add: broken_client_def)
  have m: "metadata created_task = Some [''task_url'' \<mapsto> JStr ''https://manus.im/app/t1'']"
    by (simp add: created_task_def)
  have k: "keeps_polling (responses_retrieve broken_client) (task_id created_task) 0 1"
    by (simp add: keeps_polling_def broken_client_def broken_retrieve_def running_task_def
        goes_on_def stops_polling_def)
  have e: "responses_retrieve broken_client 1 (task_id created_task) = Inl (RemoteError ''timeout'')"
    by (simp add: broken_client_def broken_retrieve_def)
  from poll_error_leaves_state [OF c m k e, of "''2024-01-01 09:00:00''" "''2024-01-01 09:00:09''"]
    c k e
  show ?thesis by (simp add: initial_state_def)
qed


section \<open>Properties of the upload handlers\<close>

lemma upload_all_loop_eq:
  "upload_all_loop client clock idx files b =
     \<lparr>uploaded_count = uploaded_count b + length (filter (uploaded_ok client) (enumerate idx files)),
      upload_results = upload_results b @ map (result_of client clock) (enumerate idx files),
      batch_calls = batch_calls b @
        concat (map (\<lambda>p. calls_made (attempt_of client p)) (enumerate idx files))\<rparr>"
proof (induction files arbitrary: idx b)
  case Nil
  then show ?case by simp
next
  case (Cons f files)
  show ?case
    by (simp add: Let_def Cons.IH uploaded_ok_def attempt_of_def result_of_def)
qed

lemma upload_all_files_eq:
  "upload_all_files client clock files =
     \<lparr>uploaded_count = length (filter (uploaded_ok client) (enumerate 0 files)),
      upload_results = map (result_of client clock) (enumerate 0 files),
      batch_calls = concat (map (\<lambda>p. calls_made (attempt_of client p)) (enumerate 0 files))\<rparr>"
  by (simp add: upload_all_files_def upload_all_loop_eq)

lemma process_uploads_loop_eq:
  "process_uploads_loop client idx files (s, calls) =
     (s\<lparr>uploaded_files := uploaded_files s @
           map (staged_of client) (filter (uploaded_ok client) (enumerate idx files))\<rparr>,
      calls @ concat (map (\<lambda>p. calls_made (attempt_of client p)) (enumerate idx files)))"
proof (induction files arbitrary: idx s calls)
  case Nil
  then show ?case by simp
next
  case (Cons f files)
  show ?case
    by (simp add: Let_def Cons.IH uploaded_ok_def attempt_of_def staged_of_def)
qed

lemma step_fails_no_id:
  "step_fails client file_data file_name_arg \<Longrightarrow>
   returned_id (upload_file_to_manus client file_data file_name_arg) = None"
  by (auto simp: step_fails_def upload_file_to_manus_def split: sum.splits option.splits)

lemma first_call_registers:
  "\<exists>rest. calls_made (upload_file_to_manus client file_data file_name_arg) =
     PostFiles file_name_arg # rest"
  by (auto simp: upload_file_to_manus_def split: sum.splits option.splits)

lemma map_name_enumerate: "map (\<lambda>p. name (snd p)) (enumerate idx files) = map name files"
  by (induction files arbitrary: idx) simp_all

text \<open>
  C6. The file manager returns one result per file, in input order and under the file's
  name; a file whose registration or byte upload fails is recorded as \<open>failed\<close> with no
  file identifier, and the files after it are processed all the same. On the chat page the
  staged files are exactly the files whose upload returned an identifier, in input order,
  and the file identifiers attached to a task are exactly those of the staged files.
\<close>

theorem failed_uploads_are_left_out:
  "upload_results (upload_all_files client clock files) =
     map (result_of client clock) (enumerate 0 files) \<and>
   map filename (upload_results (upload_all_files client clock files)) = map name files \<and>
   (\<forall>i. i < length files \<and> step_fails (client i) (data (files ! i)) (name (files ! i)) \<longrightarrow>
      result_status (upload_results (upload_all_files client clock files) ! i) = ''failed'' \<and>
      result_file_id (upload_results (upload_all_files client clock files) ! i) = None \<and>
      \<not> uploaded_ok client (i, files ! i)) \<and>
   (files \<noteq> [] \<and> k \<noteq> [] \<longrightarrow>
      uploaded_files (fst (process_all_uploads k client files s)) =
        map (staged_of client) (filter (uploaded_ok client) (enumerate 0 files))) \<and>
   input_content (handler_request agent_profile timeout_seconds user_input s') =
     InputText user_input # map (\<lambda>f. InputFile (file_id f)) (uploaded_files s')"
proof (intro conjI allI impI)
  show "upload_results (upload_all_files client clock files) =
     map (result_of client clock) (enumerate 0 files)"
    by (simp add: upload_all_files_eq)
  show "map filename (upload_results (upload_all_files client clock files)) = map name files"
    by (simp add: upload_all_files_eq o_def result_of_def map_name_enumerate)
next
  fix i
  assume a: "i < length files \<and> step_fails (client i) (data (files ! i)) (name (files ! i))"
  then have n: "\<not> uploaded_ok client (i, files ! i)"
    by (simp add: uploaded_ok_def attempt_of_def step_fails_no_id truthy_id_def)
  from a have r: "upload_results (upload_all_files client clock files) ! i =
      result_of client clock (i, files ! i)"
    by (simp add: upload_all_files_eq nth_enumerate_eq)
  from n r show "result_status (upload_results (upload_all_files client clock files) ! i) = ''failed''"
    by (simp add: result_of_def)
  from n r show "result_file_id (upload_results (upload_all_files client clock files) ! i) = None"
    by (simp add: result_of_def)
  from n show "\<not> uploaded_ok client (i, files ! i)" .
next
  assume "files \<noteq> [] \<and> k \<noteq> []"
  then show "uploaded_files (fst (process_all_uploads k client files s)) =
        map (staged_of client) (filter (uploaded_ok client) (enumerate 0 files))"
    by (simp add: process_all_uploads_def process_uploads_loop_eq)
next
  show "input_content (handler_request agent_profile timeout_seconds user_input s') =
     InputText user_input # map (\<lambda>f. InputFile (file_id f)) (uploaded_files s')"
    by (simp add: handler_request_def create_task_request_def o_def)
qed


lemma failing_twice_results:
  "map result_status (upload_results (upload_all_files failing_twice fixed_clock three_files)) =
     [''success'', ''failed'', ''failed''] \<and>
   map result_file_id (upload_results (upload_all_files failing_twice fixed_clock three_files)) =
     [Some ''file-a.txt'', None, None]"
  by (simp add: upload_all_files_def three_files_def failing_twice_def accepting_client_def
      registered_def upload_file_to_manus_def truthy_id_def Let_def)

lemma failing_twice_staged:
  "map file_id (uploaded_files
      (fst (process_all_uploads ''key'' failing_twice three_files initial_state))) =
     [''file-a.txt'']"
  by (simp add: process_all_uploads_def three_files_def failing_twice_def accepting_client_def
      registered_def upload_file_to_manus_def truthy_id_def Let_def initial_state_def)

theorem failed_uploads_are_left_out_witness:
  "length three_files = 3 \<and>
   step_fails (failing_twice 1) (data (three_files ! 1)) (name (three_files ! 1)) \<and>
   step_fails (failing_twice 2) (data (three_files ! 2)) (name (three_files ! 2)) \<and>
   result_status (upload_results (upload_all_files failing_twice fixed_clock three_files) ! 1)
     = ''failed'' \<and>
   result_status (upload_results (upload_all_files failing_twice fixed_clock three_files) ! 2)
     = ''failed'' \<and>
   map result_status (upload_results (upload_all_files failing_twice fixed_clock three_files)) =
     [''success'', ''failed'', ''failed''] \<and>
   map filename (upload_results (upload_all_files failing_twice fixed_clock three_files)) =
     [''a.txt'', ''b.csv'', ''c.md''] \<and>
   map file_id (uploaded_files
      (fst (process_all_uploads ''key'' failing_twice three_files initial_state))) =
     [''file-a.txt'']"
proof -
  have l: "length three_files = 3" by (simp add: three_files_def)
  have f1: "step_fails (failing_twice 1) (data (three_files ! 1)) (name (three_files ! 1))"
    by (simp add: step_fails_def failing_twice_def three_files_def registered_def)
  have f2: "step_fails (failing_twice 2) (data (three_files ! 2)) (name (three_files ! 2))"
    by (simp add: step_fails_def failing_twice_def three_files_def)
  note t = failed_uploads_are_left_out [of failing_twice fixed_clock three_files]
  from t have names:
    "map filename (upload_results (upload_all_files failing_twice fixed_clock three_files)) =
       map name three_files" by blast
  note a = t [THEN conjunct2, THEN conjunct2, THEN conjunct1, rule_format, OF conjI]
  from l have "1 < length three_files" by simp
  from a [OF this f1] have r1:
    "result_status (upload_results (upload_all_files failing_twice fixed_clock three_files) ! 1)
       = ''failed''" by blast
  from l have "2 < length three_files" by simp
  from a [OF this f2] have r2:
    "result_status (upload_results (upload_all_files failing_twice fixed_clock three_files) ! 2)
       = ''failed''" by blast
  have n: "map name three_files = [''a.txt'', ''b.csv'', ''c.md'']"
    by (simp add: three_files_def)
  from l f1 f2 r1 r2 names n failing_twice_results failing_twice_staged
  show ?thesis by simp
qed

text \<open>
  C5, as the handlers behave. Every file of a batch is sent to the registration call,
  whatever its size and extension and whatever limits a configuration holds (the handlers
  read no configuration), and its result is \<open>success\<close> or \<open>failed\<close>, never
  \<open>rejected\<close>.
\<close>

theorem every_file_is_registered:
  assumes "i < length files"
  shows "PostFiles (name (files ! i)) \<in> set (batch_calls (upload_all_files client clock files)) \<and>
     (result_status (upload_results (upload_all_files client clock files) ! i) = ''success'' \<or>
      result_status (upload_results (upload_all_files client clock files) ! i) = ''failed'') \<and>
     (k \<noteq> [] \<longrightarrow>
        PostFiles (name (files ! i)) \<in> set (snd (process_all_uploads k client files s)))"
proof -
  from assms have mem: "(i, files ! i) \<in> set (enumerate 0 files)"
    by (simp add: in_set_enumerate_eq)
  obtain rest where rest: "calls_made (attempt_of client (i, files ! i)) =
      PostFiles (name (files ! i)) # rest"
    using first_call_registers [of "client i" "data (files ! i)" "name (files ! i)"]
    by (auto simp: attempt_of_def)
  from mem rest have c: "PostFiles (name (files ! i)) \<in>
      set (concat (map (\<lambda>p. calls_made (attempt_of client p)) (enumerate 0 files)))"
    by force
  from assms have ne: "files \<noteq> []" by auto
  from assms have r: "upload_results (upload_all_files client clock files) ! i =
      result_of client clock (i, files ! i)"
    by (simp add: upload_all_files_eq nth_enumerate_eq)
  have st: "result_status (upload_results (upload_all_files client clock files) ! i) = ''success'' \<or>
      result_status (upload_results (upload_all_files client clock files) ! i) = ''failed''"
    unfolding r by (simp add: result_of_def)
  from c have b: "PostFiles (name (files ! i)) \<in>
      set (batch_calls (upload_all_files client clock files))"
    by (simp add: upload_all_files_eq)
  from c ne have p: "k \<noteq> [] \<longrightarrow>
        PostFiles (name (files ! i)) \<in> set (snd (process_all_uploads k client files s))"
    by (simp add: process_all_uploads_def process_uploads_loop_eq)
  from b st p show ?thesis by blast
qed

lemma big_file_uploaded:
  "batch_calls (upload_all_files always_accepting fixed_clock [big_file]) =
     [PostFiles ''big.pdf'', PutBytes ''https://upload/big.pdf''] \<and>
   map result_status (upload_results (upload_all_files always_accepting fixed_clock [big_file])) =
     [''success'']"
  by (simp add: upload_all_files_def always_accepting_def accepting_client_def registered_def
      upload_file_to_manus_def truthy_id_def Let_def big_file_def)

lemma big_file_invalid: "\<not> spec_locally_valid (default_config None) big_file"
  by (simp add: spec_locally_valid_def big_file_def default_config_def post_init_def
      field_defaults_def)

theorem every_file_is_registered_witness:
  "(0::nat) < length [big_file] \<and>
   \<not> spec_locally_valid (default_config None) big_file \<and>
   PostFiles (name ([big_file] ! 0)) \<in>
     set (batch_calls (upload_all_files always_accepting fixed_clock [big_file])) \<and>
   PostFiles (name ([big_file] ! 0)) \<in>
     set (snd (process_all_uploads ''key'' always_accepting [big_file] initial_state))"
proof -
  have l: "(0::nat) < length [big_file]" by simp
  from every_file_is_registered [OF l, of always_accepting fixed_clock "''key''" initial_state]
    big_file_invalid
  show ?thesis by simp
qed

text \<open>
  C5 as the specification words it fails: a file of 150 MiB, over the 100 MB of the
  default configuration, is registered and uploaded, and recorded as \<open>success\<close>.
\<close>

theorem oversized_file_is_uploaded:
  "\<not> spec_locally_valid (default_config None) big_file \<and>
   batch_calls (upload_all_files always_accepting fixed_clock [big_file]) =
     [PostFiles ''big.pdf'', PutBytes ''https://upload/big.pdf''] \<and>
   map result_status (upload_results (upload_all_files always_accepting fixed_clock [big_file])) =
     [''success'']"
  using big_file_uploaded big_file_invalid by simp


section \<open>Properties of configuration validation\<close>



end
